theory Spec2Isabelle
  imports Complex_Main
begin

section \<open>Data model (crew\_pay/models/schemas.py)\<close>

text \<open>
  Conventions of the embedding.
  \<^item> Python's \<open>Decimal\<close> is modelled by its numeric value, a \<open>rat\<close>; the records of this
    program hold finite decimals only, and comparison of \<open>Decimal\<close>s is by value.
    Arithmetic is exact (the rounding of the decimal context to 28 significant digits is
    not modelled).
  \<^item> The \<open>float\<close> settings are modelled by their values as \<open>rat\<close>, with exact arithmetic.
  \<^item> A \<open>date\<close> is its proleptic ordinal (days), a \<open>datetime\<close> a number of microseconds;
    \<open>datetime.now()\<close> is an input of every function that reads the clock.
  \<^item> A \<open>str\<close> is a \<open>string\<close> of ASCII characters.
  \<^item> An f-string is kept as the list of its literal parts and formatted values
    (\<open>fstring\<close>), so that no number formatting has to be modelled.
  \<^item> The one language-model call of an agent is an input: the outcome the call has if it
    is made (the text of the response, or the text of the exception raised).
\<close>

type_synonym decimal = rat
type_synonym date = int
type_synonym datetime = int

datatype frag =
    Lit string
  | DecimalStr decimal
  | FloatStr rat
  | FloatFmt1 rat
  | IntStr int

type_synonym fstring = "frag list"

datatype detail =
    DFloat rat
  | DInt int
  | DStr string
  | DStrs "string list"
  | DIsoDate date

type_synonym details = "(string \<times> detail) list"

datatype PayPeriodType = WEEKLY | BI_WEEKLY | SEMI_MONTHLY | MONTHLY

datatype PayStatus = PENDING | VALIDATED | PAY_REJECTED | PROCESSED | PAY_PAID

datatype ClaimType = OVERTIME | REIMBURSEMENT | BONUS | ADJUSTMENT | DISPUTE

datatype ClaimStatus = SUBMITTED | UNDER_REVIEW | APPROVED | REJECTED | PAID

datatype ValidationStatus = PASSED | FAILED | WARNING | REQUIRES_REVIEW

fun PayPeriodType_value :: "PayPeriodType \<Rightarrow> string" where
  "PayPeriodType_value WEEKLY = ''weekly''"
| "PayPeriodType_value BI_WEEKLY = ''bi_weekly''"
| "PayPeriodType_value SEMI_MONTHLY = ''semi_monthly''"
| "PayPeriodType_value MONTHLY = ''monthly''"

fun ClaimType_value :: "ClaimType \<Rightarrow> string" where
  "ClaimType_value OVERTIME = ''overtime''"
| "ClaimType_value REIMBURSEMENT = ''reimbursement''"
| "ClaimType_value BONUS = ''bonus''"
| "ClaimType_value ADJUSTMENT = ''adjustment''"
| "ClaimType_value DISPUTE = ''dispute''"

fun ClaimStatus_value :: "ClaimStatus \<Rightarrow> string" where
  "ClaimStatus_value SUBMITTED = ''submitted''"
| "ClaimStatus_value UNDER_REVIEW = ''under_review''"
| "ClaimStatus_value APPROVED = ''approved''"
| "ClaimStatus_value REJECTED = ''rejected''"
| "ClaimStatus_value PAID = ''paid''"

fun ValidationStatus_value :: "ValidationStatus \<Rightarrow> string" where
  "ValidationStatus_value PASSED = ''passed''"
| "ValidationStatus_value FAILED = ''failed''"
| "ValidationStatus_value WARNING = ''warning''"
| "ValidationStatus_value REQUIRES_REVIEW = ''requires_review''"

record CrewMember =
  cm_id :: string
  name :: string
  employee_id :: string
  department :: string
  position :: string
  hourly_rate :: decimal
  email :: "string option"
  phone :: "string option"

record PayRecord =
  pr_id :: string
  pr_crew_member :: CrewMember
  pay_period_start :: date
  pay_period_end :: date
  pay_period_type :: PayPeriodType
  regular_hours :: decimal
  overtime_hours :: decimal
  gross_pay :: decimal
  deductions :: decimal
  net_pay :: decimal
  pr_status :: PayStatus

record Claim =
  cl_id :: string
  cl_crew_member :: CrewMember
  claim_type :: ClaimType
  amount :: decimal
  description :: string
  supporting_documents :: "string list"
  submitted_date :: datetime
  cl_status :: ClaimStatus

record ValidationResult =
  check_name :: string
  status :: ValidationStatus
  message :: fstring
  vr_details :: details
  timestamp :: datetime

record ValidationReport =
  pay_record_id :: string
  overall_status :: ValidationStatus
  validation_results :: "ValidationResult list"
  created_at :: datetime
  summary :: fstring

record ClaimDecision =
  claim_id :: string
  decision :: ClaimStatus
  approved_amount :: decimal
  rationale :: fstring
  reviewer :: string
  reviewed_at :: datetime
  next_steps :: "string list"

text \<open>
  \<open>PayRecord.validate_pay_period\<close>, the field validator of \<open>pay_period_end\<close>.
  \<open>info.data\<close> holds \<open>pay_period_start\<close> only when that field was itself valid, hence the
  option. The validator raises \<open>ValueError\<close> or returns the value.
\<close>

datatype error =
    ValueError string
  | ValidationError string
  | DivisionByZero
  | InvalidOperation
  | AttributeError
  | GraphRecursionError
  | GraphValueError string

definition validate_pay_period_field :: "date option \<Rightarrow> date \<Rightarrow> error + date" where
  "validate_pay_period_field info_start v =
     (case info_start of
        Some s \<Rightarrow> if v < s then Inl (ValueError ''Pay period end must be after start date'')
                  else Inr v
      | None \<Rightarrow> Inr v)"

section \<open>Settings (crew\_pay/config/settings.py)\<close>

record Settings =
  enable_notifications :: bool
  enable_compliance_checks :: bool
  max_regular_hours_per_week :: rat
  max_overtime_hours_per_week :: rat
  auto_approve_claim_threshold :: "rat option"

definition default_settings :: Settings where
  "default_settings =
     \<lparr> enable_notifications = True, enable_compliance_checks = True,
       max_regular_hours_per_week = 40, max_overtime_hours_per_week = 20,
       auto_approve_claim_threshold = None \<rparr>"

section \<open>String helpers\<close>

text \<open>\<open>needle in hay\<close> on Python strings: a contiguous occurrence.\<close>

fun starts_with :: "string \<Rightarrow> string \<Rightarrow> bool" where
  "starts_with [] hay = True"
| "starts_with (c # cs) [] = False"
| "starts_with (c # cs) (h # hs) = (c = h \<and> starts_with cs hs)"

fun contains :: "string \<Rightarrow> string \<Rightarrow> bool" where
  "contains needle [] = (needle = [])"
| "contains needle (h # hs) = (starts_with needle (h # hs) \<or> contains needle hs)"

text \<open>\<open>str.lower\<close> on ASCII text: the letters A to Z are mapped to a to z.\<close>

definition lower_char :: "char \<Rightarrow> char" where
  "lower_char c =
     (case map_of (zip ''ABCDEFGHIJKLMNOPQRSTUVWXYZ'' ''abcdefghijklmnopqrstuvwxyz'') c of
        Some l \<Rightarrow> l
      | None \<Rightarrow> c)"

definition lower :: "string \<Rightarrow> string" where
  "lower s = map lower_char s"

definition is_space :: "char \<Rightarrow> bool" where
  "is_space c = (of_char c \<in> {9::nat, 10, 11, 12, 13, 28, 29, 30, 31, 32})"

definition strip :: "string \<Rightarrow> string" where
  "strip s = rev (dropWhile is_space (rev (dropWhile is_space s)))"

fun join :: "string \<Rightarrow> string list \<Rightarrow> string" where
  "join sep [] = []"
| "join sep [x] = x"
| "join sep (x # y # ys) = x @ sep @ join sep (y # ys)"

section \<open>Pay validation agent (crew\_pay/agents/pay\_validation\_agent.py)\<close>

datatype llm_outcome = LLMResponse string | LLMError string

definition validate_hours :: "Settings \<Rightarrow> datetime \<Rightarrow> PayRecord \<Rightarrow> ValidationResult" where
  "validate_hours settings now pay_record =
     (let total_hours = regular_hours pay_record + overtime_hours pay_record;
          max_total_hours =
            (max_regular_hours_per_week settings + max_overtime_hours_per_week settings) * 2
      in if total_hours > max_total_hours then
           \<lparr> check_name = ''hours_limit_check'', status = FAILED,
             message = [Lit ''Total hours ('', DecimalStr total_hours,
                        Lit '') exceeds maximum allowed ('', FloatStr max_total_hours, Lit '')''],
             vr_details = [(''total_hours'', DFloat total_hours),
                           (''max_hours'', DFloat max_total_hours),
                           (''regular_hours'', DFloat (regular_hours pay_record)),
                           (''overtime_hours'', DFloat (overtime_hours pay_record))],
             timestamp = now \<rparr>
         else if total_hours > max_total_hours * (9 / 10) then
           \<lparr> check_name = ''hours_limit_check'', status = WARNING,
             message = [Lit ''Total hours ('', DecimalStr total_hours,
                        Lit '') approaching maximum limit''],
             vr_details = [(''total_hours'', DFloat total_hours),
                           (''max_hours'', DFloat max_total_hours)],
             timestamp = now \<rparr>
         else
           \<lparr> check_name = ''hours_limit_check'', status = PASSED,
             message = [Lit ''Hours within acceptable limits''],
             vr_details = [(''total_hours'', DFloat total_hours)],
             timestamp = now \<rparr>)"

definition expected_gross_pay :: "PayRecord \<Rightarrow> decimal" where
  "expected_gross_pay pay_record =
     (let regular_pay = regular_hours pay_record * hourly_rate (pr_crew_member pay_record);
          overtime_rate = hourly_rate (pr_crew_member pay_record) * (3 / 2);
          overtime_pay = overtime_hours pay_record * overtime_rate
      in regular_pay + overtime_pay)"

definition validate_pay_calculation :: "datetime \<Rightarrow> PayRecord \<Rightarrow> ValidationResult" where
  "validate_pay_calculation now pay_record =
     (let expected_gross = expected_gross_pay pay_record;
          difference = \<bar>gross_pay pay_record - expected_gross\<bar>;
          tolerance = 1 / 100
      in if difference > tolerance then
           \<lparr> check_name = ''pay_calculation_check'', status = FAILED,
             message = [Lit ''Pay calculation mismatch. Expected: $'', DecimalStr expected_gross,
                        Lit '', Got: $'', DecimalStr (gross_pay pay_record)],
             vr_details = [(''expected_gross_pay'', DFloat expected_gross),
                           (''actual_gross_pay'', DFloat (gross_pay pay_record)),
                           (''difference'', DFloat difference)],
             timestamp = now \<rparr>
         else
           (let expected_net = gross_pay pay_record - deductions pay_record
            in if \<bar>net_pay pay_record - expected_net\<bar> > tolerance then
                 \<lparr> check_name = ''pay_calculation_check'', status = FAILED,
                   message = [Lit ''Net pay calculation mismatch''],
                   vr_details = [(''expected_net_pay'', DFloat expected_net),
                                 (''actual_net_pay'', DFloat (net_pay pay_record))],
                   timestamp = now \<rparr>
               else
                 \<lparr> check_name = ''pay_calculation_check'', status = PASSED,
                   message = [Lit ''Pay calculations are accurate''],
                   vr_details = [(''gross_pay'', DFloat (gross_pay pay_record)),
                                 (''net_pay'', DFloat (net_pay pay_record))],
                   timestamp = now \<rparr>))"

definition expected_days :: "(string \<times> int) list" where
  "expected_days = [(''weekly'', 7), (''bi_weekly'', 14), (''semi_monthly'', 15), (''monthly'', 30)]"

definition validate_pay_period :: "datetime \<Rightarrow> PayRecord \<Rightarrow> ValidationResult" where
  "validate_pay_period now pay_record =
     (if pay_period_end pay_record \<le> pay_period_start pay_record then
        \<lparr> check_name = ''pay_period_check'', status = FAILED,
          message = [Lit ''Pay period end date must be after start date''],
          vr_details = [(''start_date'', DIsoDate (pay_period_start pay_record)),
                        (''end_date'', DIsoDate (pay_period_end pay_record))],
          timestamp = now \<rparr>
      else
        (let days_diff = pay_period_end pay_record - pay_period_start pay_record;
             expected =
               (case map_of expected_days (PayPeriodType_value (pay_period_type pay_record)) of
                  Some d \<Rightarrow> d | None \<Rightarrow> 14)
         in if \<bar>days_diff - expected\<bar> > 2 then
              \<lparr> check_name = ''pay_period_check'', status = WARNING,
                message = [Lit ''Pay period length ('', IntStr days_diff,
                           Lit '' days) doesn't match type ('',
                           Lit (PayPeriodType_value (pay_period_type pay_record)), Lit '')''],
                vr_details = [(''actual_days'', DInt days_diff),
                              (''expected_days'', DInt expected),
                              (''pay_period_type'',
                                 DStr (PayPeriodType_value (pay_period_type pay_record)))],
                timestamp = now \<rparr>
            else
              \<lparr> check_name = ''pay_period_check'', status = PASSED,
                message = [Lit ''Pay period is valid''],
                vr_details = [(''days'', DInt days_diff)],
                timestamp = now \<rparr>))"

definition missing_fields_of :: "PayRecord \<Rightarrow> string list" where
  "missing_fields_of pay_record =
     (if name (pr_crew_member pay_record) = [] then [''crew_member.name''] else []) @
     (if employee_id (pr_crew_member pay_record) = [] then [''crew_member.employee_id''] else []) @
     (if regular_hours pay_record < 0 then [''regular_hours (invalid)''] else []) @
     (if gross_pay pay_record \<le> 0 then [''gross_pay (invalid)''] else [])"

definition validate_data_completeness :: "datetime \<Rightarrow> PayRecord \<Rightarrow> ValidationResult" where
  "validate_data_completeness now pay_record =
     (let missing_fields = missing_fields_of pay_record
      in if missing_fields \<noteq> [] then
           \<lparr> check_name = ''data_completeness_check'', status = FAILED,
             message = [Lit ''Missing or invalid required fields: '',
                        Lit (join '', '' missing_fields)],
             vr_details = [(''missing_fields'', DStrs missing_fields)],
             timestamp = now \<rparr>
         else
           \<lparr> check_name = ''data_completeness_check'', status = PASSED,
             message = [Lit ''All required data is present''],
             vr_details = [],
             timestamp = now \<rparr>)"

definition validate_with_llm :: "llm_outcome \<Rightarrow> datetime \<Rightarrow> PayRecord \<Rightarrow> ValidationResult" where
  "validate_with_llm outcome now pay_record =
     (case outcome of
        LLMResponse response_content \<Rightarrow>
          (let content = lower response_content;
               st = (if contains ''failed'' content \<or> contains ''reject'' content then FAILED
                     else if contains ''warning'' content \<or> contains ''concern'' content
                     then WARNING
                     else PASSED)
           in \<lparr> check_name = ''llm_semantic_check'', status = st,
                message = [Lit ''LLM validation: '', Lit (take 200 response_content)],
                vr_details = [(''llm_response'', DStr response_content)],
                timestamp = now \<rparr>)
      | LLMError e \<Rightarrow>
          \<lparr> check_name = ''llm_semantic_check'', status = WARNING,
            message = [Lit ''LLM validation skipped due to error: '', Lit e],
            vr_details = [(''error'', DStr e)],
            timestamp = now \<rparr>)"

definition determine_overall_status :: "ValidationResult list \<Rightarrow> ValidationStatus" where
  "determine_overall_status results =
     (if list_ex (\<lambda>r. status r = FAILED) results then FAILED
      else if list_ex (\<lambda>r. status r = REQUIRES_REVIEW) results then REQUIRES_REVIEW
      else if list_ex (\<lambda>r. status r = WARNING) results then WARNING
      else PASSED)"

definition count_status :: "ValidationStatus \<Rightarrow> ValidationResult list \<Rightarrow> int" where
  "count_status st results = int (length (filter (\<lambda>r. status r = st) results))"

definition create_summary :: "ValidationResult list \<Rightarrow> ValidationStatus \<Rightarrow> fstring" where
  "create_summary results overall =
     (let passed = count_status PASSED results;
          warnings = count_status WARNING results;
          failed = count_status FAILED results;
          summary = [Lit ''Validation completed with status: '',
                     Lit (ValidationStatus_value overall), Lit ''. '',
                     Lit ''Checks: '', IntStr passed, Lit '' passed, '', IntStr warnings,
                     Lit '' warnings, '', IntStr failed, Lit '' failed.'']
      in if failed > 0 then
           summary @ [Lit '' Failed checks: '',
                      Lit (join '', '' (map check_name (filter (\<lambda>r. status r = FAILED) results)))]
         else summary)"

section \<open>Agent input and output (crew\_pay/models/state.py)\<close>

record compliance_check =
  cc_check_name :: string
  passed :: bool
  warning :: bool
  cc_message :: fstring
  cc_details :: details

text \<open>
  A notification record of the notification agent. The body text of a notification is not
  modelled; \<open>priority\<close> and \<open>action_required\<close> are the keys only some notifications have.
\<close>

record notification =
  ntype :: string
  recipient :: string
  subject :: fstring
  priority :: "string option"
  action_required :: "bool option"
  sent :: bool
  n_timestamp :: datetime

text \<open>
  \<open>AgentOutput.result\<close> is a dictionary whose keys depend on the agent; each shape is a
  constructor. \<open>RejectedClaimResult\<close> is the result of a claim rejected by the rule checks
  (no \<open>approved_amount\<close> key).
\<close>

datatype agent_result =
    PayValidationResult ValidationReport string string
  | RejectedClaimResult ClaimDecision string string
  | ClaimResult ClaimDecision string string rat
  | ComplianceResult string "compliance_check list" bool bool
  | NotificationResult "notification list" int

datatype agent_metadata =
    MetaValidationReport ValidationReport
  | MetaClaimDecision ClaimDecision
  | MetaComplianceChecks "compliance_check list"
  | MetaNotifications "notification list"

datatype meta_value = MStr string | MResult agent_result

type_synonym metadata_dict = "(string \<times> meta_value) list"

text \<open>\<open>d[k] = v\<close> on a dictionary kept as an association list in insertion order.\<close>

fun dict_set :: "('k \<times> 'v) list \<Rightarrow> 'k \<Rightarrow> 'v \<Rightarrow> ('k \<times> 'v) list" where
  "dict_set [] k v = [(k, v)]"
| "dict_set ((k', v') # kvs) k v =
     (if k' = k then (k, v) # kvs else (k', v') # dict_set kvs k v)"

record AgentInput =
  ai_messages :: "fstring list"
  ai_context :: metadata_dict
  ai_pay_record :: "PayRecord option"
  ai_claim :: "Claim option"

record AgentOutput =
  ao_messages :: "fstring list"
  result :: agent_result
  ao_next_agent :: "string option"
  should_continue :: bool
  ao_metadata :: agent_metadata

text \<open>
  \<open>PayValidationAgent.process\<close>. \<open>clock n\<close> is the \<open>n\<close>-th reading of the clock during the
  call. The second component of the result counts the calls made to the language model.
\<close>

definition rule_based_results ::
    "Settings \<Rightarrow> (nat \<Rightarrow> datetime) \<Rightarrow> PayRecord \<Rightarrow> ValidationResult list" where
  "rule_based_results settings clock pay_record =
     [validate_hours settings (clock 0) pay_record,
      validate_pay_calculation (clock 1) pay_record,
      validate_pay_period (clock 2) pay_record,
      validate_data_completeness (clock 3) pay_record]"

definition pay_validation_results ::
    "Settings \<Rightarrow> llm_outcome \<Rightarrow> (nat \<Rightarrow> datetime) \<Rightarrow> PayRecord \<Rightarrow> ValidationResult list" where
  "pay_validation_results settings outcome clock pay_record =
     rule_based_results settings clock pay_record
     @ [validate_with_llm outcome (clock 4) pay_record]"

definition pay_validation_process ::
    "Settings \<Rightarrow> llm_outcome \<Rightarrow> (nat \<Rightarrow> datetime) \<Rightarrow> AgentInput \<Rightarrow> error + (AgentOutput \<times> nat)" where
  "pay_validation_process settings outcome clock agent_input =
     (case ai_pay_record agent_input of
        None \<Rightarrow> Inl (ValidationError ''No pay record provided for validation'')
      | Some pay_record \<Rightarrow>
          (let validation_results = pay_validation_results settings outcome clock pay_record;
               overall = determine_overall_status validation_results;
               validation_report =
                 \<lparr> pay_record_id = pr_id pay_record, overall_status = overall,
                   validation_results = validation_results, created_at = clock 5,
                   summary = create_summary validation_results overall \<rparr>;
               msg = [Lit ''Completed validation for pay record '', Lit (pr_id pay_record),
                      Lit ''. '', Lit ''Status: '', Lit (ValidationStatus_value overall),
                      Lit ''. '', Lit ''Passed: '', IntStr (count_status PASSED validation_results),
                      Lit ''/'', IntStr (int (length validation_results)), Lit '' checks.'']
           in Inr (\<lparr> ao_messages = [msg],
                     result = PayValidationResult validation_report (pr_id pay_record)
                                (ValidationStatus_value overall),
                     ao_next_agent = (if overall \<noteq> FAILED then Some ''ComplianceAgent'' else None),
                     should_continue = (overall \<noteq> FAILED),
                     ao_metadata = MetaValidationReport validation_report \<rparr>, 1)))"

section \<open>Claims processing agent (crew\_pay/agents/claims\_processing\_agent.py)\<close>

definition required_docs :: "string list" where
  "required_docs = [''timesheet'', ''time'', ''hours'', ''schedule'']"

definition has_required_doc :: "Claim \<Rightarrow> bool" where
  "has_required_doc claim =
     list_ex (\<lambda>doc. list_ex (\<lambda>keyword. contains keyword (lower doc)) required_docs)
       (supporting_documents claim)"

definition validate_overtime_claim :: "Claim \<Rightarrow> bool" where
  "validate_overtime_claim claim =
     (has_required_doc claim \<or> length (supporting_documents claim) > 0)"

text \<open>\<open>_validate_claim\<close> returns the dictionary \<open>{"is_valid": b, "message": m}\<close>, here the pair.\<close>

definition validate_claim :: "Claim \<Rightarrow> bool \<times> string" where
  "validate_claim claim =
     (if description claim = [] \<or> length (strip (description claim)) < 10 then
        (False, ''Claim description is too short or missing'')
      else if amount claim \<le> 0 then
        (False, ''Claim amount must be greater than zero'')
      else if ClaimType_value (claim_type claim) = ''overtime'' \<and> \<not> validate_overtime_claim claim then
        (False, ''Overtime claim validation failed - missing timesheet documentation'')
      else if ClaimType_value (claim_type claim) = ''reimbursement''
              \<and> supporting_documents claim = [] then
        (False, ''Reimbursement claims require supporting documents'')
      else (True, ''Claim validation passed''))"

definition auto_approve_claim :: "datetime \<Rightarrow> Claim \<Rightarrow> ClaimDecision" where
  "auto_approve_claim now claim =
     \<lparr> claim_id = cl_id claim, decision = APPROVED, approved_amount = amount claim,
       rationale = [Lit ''Auto-approved: claim amount ($'', DecimalStr (amount claim),
                    Lit '') below threshold''],
       reviewer = ''ClaimsProcessingAgent'', reviewed_at = now,
       next_steps = [''Process payment'', ''Update payroll system'',
                     ''Notify crew member of approval''] \<rparr>"

definition evaluate_claim_with_llm :: "llm_outcome \<Rightarrow> datetime \<Rightarrow> Claim \<Rightarrow> ClaimDecision" where
  "evaluate_claim_with_llm outcome now claim =
     (case outcome of
        LLMResponse response_content \<Rightarrow>
          (let content = lower response_content
           in if contains ''approved'' content \<and> \<not> contains ''rejected'' content then
                \<lparr> claim_id = cl_id claim, decision = APPROVED, approved_amount = amount claim,
                  rationale = [Lit ''Approved based on LLM evaluation. '',
                               Lit (take 300 response_content)],
                  reviewer = ''ClaimsProcessingAgent'', reviewed_at = now,
                  next_steps = [''Process payment'', ''Update payroll system'',
                                ''Notify crew member of approval''] \<rparr>
              else if contains ''rejected'' content \<or> contains ''deny'' content then
                \<lparr> claim_id = cl_id claim, decision = REJECTED, approved_amount = 0,
                  rationale = [Lit ''Rejected based on LLM evaluation. '',
                               Lit (take 300 response_content)],
                  reviewer = ''ClaimsProcessingAgent'', reviewed_at = now,
                  next_steps = [''Notify crew member of rejection'',
                                ''Provide feedback for resubmission''] \<rparr>
              else
                \<lparr> claim_id = cl_id claim, decision = UNDER_REVIEW, approved_amount = 0,
                  rationale = [Lit ''Requires additional review. '',
                               Lit (take 300 response_content)],
                  reviewer = ''ClaimsProcessingAgent'', reviewed_at = now,
                  next_steps = [''Request additional documentation'',
                                ''Escalate to manager for review'',
                                ''Schedule review meeting''] \<rparr>)
      | LLMError e \<Rightarrow>
          \<lparr> claim_id = cl_id claim, decision = UNDER_REVIEW, approved_amount = 0,
            rationale = [Lit ''Automatic evaluation unavailable. Manual review required. Error: '',
                         Lit e],
            reviewer = ''ClaimsProcessingAgent'', reviewed_at = now,
            next_steps = [''Manual review required'', ''Escalate to human reviewer''] \<rparr>)"

definition determine_next_agent :: "Settings \<Rightarrow> ClaimDecision \<Rightarrow> string" where
  "determine_next_agent settings d =
     (if decision d = APPROVED then
        (if enable_compliance_checks settings then ''ComplianceAgent'' else ''NotificationAgent'')
      else if decision d = REJECTED then ''NotificationAgent''
      else ''NotificationAgent'')"

text \<open>
  The test \<open>settings.auto_approve_claim_threshold and claim.amount <= Decimal(str(threshold))\<close>:
  \<open>None\<close> and \<open>0.0\<close> are falsy.
\<close>

definition auto_approvable :: "Settings \<Rightarrow> Claim \<Rightarrow> bool" where
  "auto_approvable settings claim =
     (case auto_approve_claim_threshold settings of
        None \<Rightarrow> False
      | Some t \<Rightarrow> t \<noteq> 0 \<and> amount claim \<le> t)"

definition claims_process ::
    "Settings \<Rightarrow> llm_outcome \<Rightarrow> (nat \<Rightarrow> datetime) \<Rightarrow> AgentInput \<Rightarrow> error + (AgentOutput \<times> nat)" where
  "claims_process settings outcome clock agent_input =
     (case ai_claim agent_input of
        None \<Rightarrow> Inl (ValidationError ''No claim provided for processing'')
      | Some claim \<Rightarrow>
          (let validation_result = validate_claim claim
           in if \<not> fst validation_result then
                (let d = \<lparr> claim_id = cl_id claim, decision = REJECTED, approved_amount = 0,
                           rationale = [Lit (snd validation_result)],
                           reviewer = ''ClaimsProcessingAgent'', reviewed_at = clock 0,
                           next_steps = [''Notify crew member of rejection'',
                                         ''Request additional information''] \<rparr>;
                     msg = [Lit ''Claim '', Lit (cl_id claim), Lit '' rejected: '',
                            Lit (snd validation_result)]
                 in Inr (\<lparr> ao_messages = [msg],
                           result = RejectedClaimResult d (cl_id claim) (ClaimStatus_value REJECTED),
                           ao_next_agent = Some ''NotificationAgent'',
                           should_continue = True,
                           ao_metadata = MetaClaimDecision d \<rparr>, 0))
              else
                (let (d, calls) =
                       (if auto_approvable settings claim
                        then (auto_approve_claim (clock 0) claim, 0::nat)
                        else (evaluate_claim_with_llm outcome (clock 0) claim, 1));
                     next_agent = determine_next_agent settings d;
                     msg = [Lit ''Claim '', Lit (cl_id claim), Lit '' processed. Decision: '',
                            Lit (ClaimStatus_value (decision d)), Lit ''. '',
                            Lit ''Approved amount: $'', DecimalStr (approved_amount d)]
                 in Inr (\<lparr> ao_messages = [msg],
                           result = ClaimResult d (cl_id claim) (ClaimStatus_value (decision d))
                                      (approved_amount d),
                           ao_next_agent = Some next_agent,
                           should_continue = True,
                           ao_metadata = MetaClaimDecision d \<rparr>, calls))))"

section \<open>Compliance agent (crew\_pay/agents/compliance\_agent.py)\<close>

text \<open>Division of \<open>Decimal\<close>s raises on a zero divisor.\<close>

definition decimal_div :: "decimal \<Rightarrow> decimal \<Rightarrow> error + decimal" where
  "decimal_div a b =
     (if b = 0 then (if a = 0 then Inl InvalidOperation else Inl DivisionByZero)
      else Inr (a / b))"

definition minimum_wage_check :: "PayRecord \<Rightarrow> compliance_check" where
  "minimum_wage_check pay_record =
     (if hourly_rate (pr_crew_member pay_record) < 15 then
        \<lparr> cc_check_name = ''minimum_wage_check'', passed = False, warning = False,
          cc_message = [Lit ''Hourly rate ($'', DecimalStr (hourly_rate (pr_crew_member pay_record)),
                        Lit '') below minimum wage ($15.00)''],
          cc_details = [(''hourly_rate'', DFloat (hourly_rate (pr_crew_member pay_record))),
                        (''minimum'', DFloat 15)] \<rparr>
      else
        \<lparr> cc_check_name = ''minimum_wage_check'', passed = True, warning = False,
          cc_message = [Lit ''Hourly rate meets minimum wage requirements''],
          cc_details = [(''hourly_rate'', DFloat (hourly_rate (pr_crew_member pay_record)))] \<rparr>)"

definition overtime_rate_check :: "PayRecord \<Rightarrow> compliance_check list" where
  "overtime_rate_check pay_record =
     (if overtime_hours pay_record > 0 then
        [\<lparr> cc_check_name = ''overtime_rate_check'', passed = True, warning = False,
           cc_message = [Lit ''Overtime hours recorded, ensure 1.5x rate applied''],
           cc_details = [(''overtime_hours'', DFloat (overtime_hours pay_record))] \<rparr>]
      else [])"

definition tax_withholding_check :: "PayRecord \<Rightarrow> error + compliance_check" where
  "tax_withholding_check pay_record =
     (if deductions pay_record \<le> 0 \<and> gross_pay pay_record > 0 then
        Inr \<lparr> cc_check_name = ''tax_withholding_check'', passed = False, warning = True,
              cc_message = [Lit ''No deductions found - verify tax withholding''],
              cc_details = [(''deductions'', DFloat (deductions pay_record))] \<rparr>
      else
        (case decimal_div (deductions pay_record) (gross_pay pay_record) of
           Inl e \<Rightarrow> Inl e
         | Inr q \<Rightarrow>
             (let deduction_percentage = q * 100
              in if deduction_percentage < 5 \<or> deduction_percentage > 50 then
                   Inr \<lparr> cc_check_name = ''tax_withholding_check'', passed = True, warning = True,
                         cc_message = [Lit ''Deductions ('', FloatFmt1 deduction_percentage,
                                       Lit ''%) outside typical range (15-35%)''],
                         cc_details = [(''deduction_percentage'', DFloat deduction_percentage)] \<rparr>
                 else
                   Inr \<lparr> cc_check_name = ''tax_withholding_check'', passed = True, warning = False,
                         cc_message = [Lit ''Deductions within normal range''],
                         cc_details = [(''deduction_percentage'', DFloat deduction_percentage)] \<rparr>)))"

definition check_pay_record_compliance :: "PayRecord \<Rightarrow> error + compliance_check list" where
  "check_pay_record_compliance pay_record =
     (case tax_withholding_check pay_record of
        Inl e \<Rightarrow> Inl e
      | Inr tax \<Rightarrow>
          Inr ([minimum_wage_check pay_record] @ overtime_rate_check pay_record @ [tax]))"

definition check_claim_compliance :: "Claim \<Rightarrow> compliance_check list" where
  "check_claim_compliance claim =
     [if ClaimType_value (claim_type claim) \<in> set [''reimbursement'', ''bonus'']
         \<and> supporting_documents claim = [] then
        \<lparr> cc_check_name = ''documentation_requirement'', passed = False, warning = False,
          cc_message = [Lit (ClaimType_value (claim_type claim)),
                        Lit '' claims require supporting documentation''],
          cc_details = [(''claim_type'', DStr (ClaimType_value (claim_type claim)))] \<rparr>
      else
        \<lparr> cc_check_name = ''documentation_requirement'', passed = True, warning = False,
          cc_message = [Lit ''Documentation requirements met''],
          cc_details = [(''document_count'', DInt (int (length (supporting_documents claim))))] \<rparr>,
      if amount claim > 10000 then
        \<lparr> cc_check_name = ''amount_threshold_check'', passed = True, warning = True,
          cc_message = [Lit ''Claim amount ($'', DecimalStr (amount claim),
                        Lit '') exceeds typical threshold - additional review recommended''],
          cc_details = [(''amount'', DFloat (amount claim)), (''threshold'', DInt 10000)] \<rparr>
      else
        \<lparr> cc_check_name = ''amount_threshold_check'', passed = True, warning = False,
          cc_message = [Lit ''Claim amount within normal range''],
          cc_details = [(''amount'', DFloat (amount claim))] \<rparr>]"

definition check_general_compliance :: "llm_outcome \<Rightarrow> compliance_check" where
  "check_general_compliance outcome =
     (case outcome of
        LLMResponse response_content \<Rightarrow>
          (let content = lower response_content;
               compliant = (contains ''compliant'' content \<and> \<not> contains ''non-compliant'' content
                            \<and> \<not> contains ''not compliant'' content)
           in \<lparr> cc_check_name = ''llm_general_compliance'', passed = compliant,
                warning = (\<not> compliant),
                cc_message = [Lit ''LLM compliance review: '', Lit (take 200 response_content)],
                cc_details = [(''llm_response'', DStr response_content)] \<rparr>)
      | LLMError e \<Rightarrow>
          \<lparr> cc_check_name = ''llm_general_compliance'', passed = True, warning = True,
            cc_message = [Lit ''LLM compliance check skipped: '', Lit e],
            cc_details = [(''error'', DStr e)] \<rparr>)"

text \<open>The checks the compliance agent gathers, in the order of \<open>ComplianceAgent.process\<close>.\<close>

definition compliance_checks_of :: "llm_outcome \<Rightarrow> AgentInput \<Rightarrow> error + compliance_check list" where
  "compliance_checks_of outcome agent_input =
     (case (case ai_pay_record agent_input of
              None \<Rightarrow> Inr []
            | Some pay_record \<Rightarrow> check_pay_record_compliance pay_record) of
        Inl e \<Rightarrow> Inl e
      | Inr pay_checks \<Rightarrow>
          Inr (pay_checks
               @ (case ai_claim agent_input of None \<Rightarrow> [] | Some claim \<Rightarrow> check_claim_compliance claim)
               @ [check_general_compliance outcome]))"

text \<open>
  The decision of \<open>ComplianceAgent.process\<close> on the gathered checks; \<open>context_id\<close> is the
  identifier of the pay record, else of the claim, else \<open>None\<close>.
\<close>

definition compliance_decide :: "string option \<Rightarrow> compliance_check list \<Rightarrow> AgentOutput" where
  "compliance_decide context_id compliance_checks =
     (let all_passed = list_all passed compliance_checks;
          has_warnings = list_ex warning compliance_checks;
          ctx = (case context_id of None \<Rightarrow> ''None'' | Some i \<Rightarrow> i);
          (st, message_text, next_agent, cont) =
            (if all_passed then
               (''compliant'', [Lit ''All compliance checks passed for '', Lit ctx],
                Some ''NotificationAgent'', True)
             else if has_warnings then
               (''compliant_with_warnings'',
                [Lit ''Compliance checks passed with warnings for '', Lit ctx],
                Some ''NotificationAgent'', True)
             else
               (''non_compliant'',
                [Lit ''Compliance checks failed for '', Lit ctx, Lit ''. Failed: '',
                 Lit (join '', '' (map cc_check_name (filter (\<lambda>c. \<not> passed c) compliance_checks)))],
                None, False))
      in \<lparr> ao_messages = [message_text],
           result = ComplianceResult st compliance_checks all_passed has_warnings,
           ao_next_agent = next_agent,
           should_continue = cont,
           ao_metadata = MetaComplianceChecks compliance_checks \<rparr>)"

definition compliance_process :: "llm_outcome \<Rightarrow> AgentInput \<Rightarrow> error + (AgentOutput \<times> nat)" where
  "compliance_process outcome agent_input =
     (let context_id =
            (case ai_pay_record agent_input of
               Some pay_record \<Rightarrow> Some (pr_id pay_record)
             | None \<Rightarrow> (case ai_claim agent_input of
                          Some claim \<Rightarrow> Some (cl_id claim)
                        | None \<Rightarrow> None))
      in case compliance_checks_of outcome agent_input of
           Inl e \<Rightarrow> Inl e
         | Inr compliance_checks \<Rightarrow> Inr (compliance_decide context_id compliance_checks, 1))"

section \<open>Notification agent (crew\_pay/agents/notification\_agent.py)\<close>

text \<open>
  Every notification reads the clock once (\<open>_get_timestamp\<close>); \<open>start\<close> is the number of
  readings taken before. A \<open>workflow_id\<close> of the context that is not a string would be
  formatted by Python's \<open>str\<close> of a dictionary, which is not modelled: the fragment
  \<open>Lit ''<dict>''\<close> stands for it (the workflows below always store a string).
\<close>

definition recipient_of :: "CrewMember \<Rightarrow> string" where
  "recipient_of m = (case email m of None \<Rightarrow> name m | Some a \<Rightarrow> if a = [] then name m else a)"

text \<open>
  \<open>d.get(key, "unknown")\<close> on a stored agent result, for the keys \<open>overall_status\<close> and
  \<open>decision\<close>.
\<close>

fun get_overall_status :: "agent_result \<Rightarrow> string" where
  "get_overall_status (PayValidationResult r i st) = st"
| "get_overall_status other = ''unknown''"

fun get_decision :: "agent_result \<Rightarrow> string" where
  "get_decision (RejectedClaimResult d i st) = st"
| "get_decision (ClaimResult d i st a) = st"
| "get_decision other = ''unknown''"

definition send_pay_record_notifications ::
    "(nat \<Rightarrow> datetime) \<Rightarrow> nat \<Rightarrow> PayRecord \<Rightarrow> metadata_dict \<Rightarrow> error + notification list" where
  "send_pay_record_notifications clock start pay_record ctx =
     (case map_of ctx ''validation_report'' of
        None \<Rightarrow> Inr []
      | Some (MStr s) \<Rightarrow> if s = [] then Inr [] else Inl AttributeError
      | Some (MResult validation_report) \<Rightarrow>
          (let st = get_overall_status validation_report
           in Inr ([\<lparr> ntype = ''email'',
                       recipient = recipient_of (pr_crew_member pay_record),
                       subject = [Lit ''Pay Record '', Lit (pr_id pay_record),
                                  Lit '' - Status: '', Lit st],
                       priority = None, action_required = None, sent = True,
                       n_timestamp = clock start \<rparr>]
                   @ (if st = ''failed'' then
                        [\<lparr> ntype = ''alert'', recipient = ''payroll_department'',
                           subject = [Lit ''Pay Record Validation Failed: '',
                                      Lit (pr_id pay_record)],
                           priority = Some ''high'', action_required = None, sent = True,
                           n_timestamp = clock (start + 1) \<rparr>]
                      else []))))"

definition send_claim_notifications ::
    "(nat \<Rightarrow> datetime) \<Rightarrow> nat \<Rightarrow> Claim \<Rightarrow> metadata_dict \<Rightarrow> error + notification list" where
  "send_claim_notifications clock start claim ctx =
     (case map_of ctx ''claim_decision'' of
        None \<Rightarrow> Inr []
      | Some (MStr s) \<Rightarrow> if s = [] then Inr [] else Inl AttributeError
      | Some (MResult claim_decision) \<Rightarrow>
          (let d = get_decision claim_decision
           in Inr ([\<lparr> ntype = ''email'',
                       recipient = recipient_of (cl_crew_member claim),
                       subject = [Lit ''Claim '', Lit (cl_id claim), Lit '' - Decision: '', Lit d],
                       priority = None, action_required = None, sent = True,
                       n_timestamp = clock start \<rparr>]
                   @ (if d = ''approved'' then
                        [\<lparr> ntype = ''task'', recipient = ''finance_department'',
                           subject = [Lit ''Process Payment for Claim '', Lit (cl_id claim)],
                           priority = None, action_required = Some True, sent = True,
                           n_timestamp = clock (start + 1) \<rparr>]
                      else []))))"

definition send_workflow_completion_notification ::
    "(nat \<Rightarrow> datetime) \<Rightarrow> nat \<Rightarrow> metadata_dict \<Rightarrow> notification" where
  "send_workflow_completion_notification clock start ctx =
     (let wid = (case map_of ctx ''workflow_id'' of
                   Some (MStr w) \<Rightarrow> [Lit w]
                 | Some (MResult r) \<Rightarrow> [Lit ''<dict>'']
                 | None \<Rightarrow> [Lit ''unknown''])
      in \<lparr> ntype = ''log'', recipient = ''system'',
           subject = [Lit ''Workflow ''] @ wid @ [Lit '' Completed''],
           priority = None, action_required = None, sent = True,
           n_timestamp = clock start \<rparr>)"

definition notification_process :: "(nat \<Rightarrow> datetime) \<Rightarrow> AgentInput \<Rightarrow> error + AgentOutput" where
  "notification_process clock agent_input =
     (case (case ai_pay_record agent_input of
              None \<Rightarrow> Inr []
            | Some pay_record \<Rightarrow>
                send_pay_record_notifications clock 0 pay_record (ai_context agent_input)) of
        Inl e \<Rightarrow> Inl e
      | Inr ns1 \<Rightarrow>
          (case (case ai_claim agent_input of
                   None \<Rightarrow> Inr []
                 | Some claim \<Rightarrow>
                     send_claim_notifications clock (length ns1) claim (ai_context agent_input)) of
             Inl e \<Rightarrow> Inl e
           | Inr ns2 \<Rightarrow>
               (let notifications_sent =
                      ns1 @ ns2 @
                      [send_workflow_completion_notification clock (length ns1 + length ns2)
                         (ai_context agent_input)]
                in Inr \<lparr> ao_messages = [[Lit ''Sent '', IntStr (int (length notifications_sent)),
                                          Lit '' notifications successfully'']],
                         result = NotificationResult notifications_sent
                                    (int (length notifications_sent)),
                         ao_next_agent = None,
                         should_continue = False,
                         ao_metadata = MetaNotifications notifications_sent \<rparr>)))"

section \<open>Workflow (crew\_pay/orchestrator/workflow.py)\<close>

record WorkflowConfig =
  max_iterations :: int
  timeout_seconds :: int
  enable_human_in_loop :: bool
  notification_enabled :: bool
  compliance_checks_required :: bool
  auto_approve_threshold :: "rat option"

definition default_config :: WorkflowConfig where
  "default_config =
     \<lparr> max_iterations = 10, timeout_seconds = 300, enable_human_in_loop = False,
       notification_enabled = True, compliance_checks_required = True,
       auto_approve_threshold = None \<rparr>"

record WorkflowState =
  ws_messages :: "fstring list"
  ws_pay_record :: "PayRecord option"
  ws_claim :: "Claim option"
  validation_report :: "ValidationReport option"
  claim_decision :: "ClaimDecision option"
  current_agent :: string
  next_agent :: "string option"
  workflow_status :: string
  error_message :: "string option"
  workflow_id :: string
  started_at :: datetime
  completed_at :: "datetime option"
  iteration_count :: int
  metadata :: metadata_dict

text \<open>
  What a run takes from outside: the outcome of the language-model call of each agent, and
  the clock readings during each node.
\<close>

record World =
  llm_pay_validation :: llm_outcome
  llm_claims :: llm_outcome
  llm_compliance :: llm_outcome
  clock_pay_validation :: "nat \<Rightarrow> datetime"
  clock_claims :: "nat \<Rightarrow> datetime"
  clock_notification :: "nat \<Rightarrow> datetime"
  now_notification_done :: datetime
  now_wrapper :: datetime

definition run_pay_validation :: "Settings \<Rightarrow> World \<Rightarrow> WorkflowState \<Rightarrow> error + WorkflowState" where
  "run_pay_validation settings w state =
     (case pay_validation_process settings (llm_pay_validation w) (clock_pay_validation w)
             \<lparr> ai_messages = ws_messages state, ai_context = metadata state,
               ai_pay_record = ws_pay_record state, ai_claim = None \<rparr> of
        Inl e \<Rightarrow> Inl e
      | Inr (output, calls) \<Rightarrow>
          (let state1 = state\<lparr> ws_messages := ws_messages state @ ao_messages output,
                               current_agent := ''pay_validation'',
                               next_agent := ao_next_agent output,
                               iteration_count := iteration_count state + 1 \<rparr>;
               state2 = (case result output of
                           PayValidationResult rep i st \<Rightarrow>
                             state1\<lparr> validation_report := Some rep,
                                     metadata := dict_set (metadata state1) ''validation_report''
                                                   (MResult (result output)) \<rparr>
                         | other \<Rightarrow> state1)
           in Inr (if \<not> should_continue output
                   then state2\<lparr> workflow_status := ''failed'',
                                error_message := Some ''Pay validation failed'' \<rparr>
                   else state2)))"

definition run_claims_processing :: "Settings \<Rightarrow> World \<Rightarrow> WorkflowState \<Rightarrow> error + WorkflowState" where
  "run_claims_processing settings w state =
     (case claims_process settings (llm_claims w) (clock_claims w)
             \<lparr> ai_messages = ws_messages state, ai_context = metadata state,
               ai_pay_record = None, ai_claim = ws_claim state \<rparr> of
        Inl e \<Rightarrow> Inl e
      | Inr (output, calls) \<Rightarrow>
          (let state1 = state\<lparr> ws_messages := ws_messages state @ ao_messages output,
                               current_agent := ''claims_processing'',
                               next_agent := ao_next_agent output,
                               iteration_count := iteration_count state + 1 \<rparr>
           in Inr (case result output of
                     RejectedClaimResult d i st \<Rightarrow>
                       state1\<lparr> claim_decision := Some d,
                               metadata := dict_set (metadata state1) ''claim_decision''
                                             (MResult (result output)) \<rparr>
                   | ClaimResult d i st a \<Rightarrow>
                       state1\<lparr> claim_decision := Some d,
                               metadata := dict_set (metadata state1) ''claim_decision''
                                             (MResult (result output)) \<rparr>
                   | other \<Rightarrow> state1)))"

definition run_compliance :: "World \<Rightarrow> WorkflowState \<Rightarrow> error + WorkflowState" where
  "run_compliance w state =
     (case compliance_process (llm_compliance w)
             \<lparr> ai_messages = ws_messages state, ai_context = metadata state,
               ai_pay_record = ws_pay_record state, ai_claim = ws_claim state \<rparr> of
        Inl e \<Rightarrow> Inl e
      | Inr (output, calls) \<Rightarrow>
          (let state1 = state\<lparr> ws_messages := ws_messages state @ ao_messages output,
                               current_agent := ''compliance'',
                               next_agent := ao_next_agent output,
                               iteration_count := iteration_count state + 1,
                               metadata := dict_set (metadata state) ''compliance''
                                             (MResult (result output)) \<rparr>
           in Inr (if \<not> should_continue output
                   then state1\<lparr> workflow_status := ''failed'',
                                error_message := Some ''Compliance check failed'' \<rparr>
                   else state1)))"

definition run_notification :: "World \<Rightarrow> WorkflowState \<Rightarrow> error + WorkflowState" where
  "run_notification w state =
     (case notification_process (clock_notification w)
             \<lparr> ai_messages = ws_messages state, ai_context = metadata state,
               ai_pay_record = ws_pay_record state, ai_claim = ws_claim state \<rparr> of
        Inl e \<Rightarrow> Inl e
      | Inr output \<Rightarrow>
          (let state1 = state\<lparr> ws_messages := ws_messages state @ ao_messages output,
                               current_agent := ''notification'',
                               next_agent := None,
                               iteration_count := iteration_count state + 1,
                               metadata := dict_set (metadata state) ''notifications''
                                             (MResult (result output)) \<rparr>;
               state2 = (if workflow_status state1 \<noteq> ''failed''
                         then state1\<lparr> workflow_status := ''completed'' \<rparr> else state1)
           in Inr (state2\<lparr> completed_at := Some (now_notification_done w) \<rparr>)))"

definition route_from_pay_validation :: "WorkflowConfig \<Rightarrow> WorkflowState \<Rightarrow> string" where
  "route_from_pay_validation config state =
     (if workflow_status state = ''failed'' then ''notification''
      else if next_agent state = Some ''ComplianceAgent'' \<and> compliance_checks_required config
      then ''compliance''
      else ''notification'')"

definition route_from_claims_processing :: "WorkflowConfig \<Rightarrow> WorkflowState \<Rightarrow> string" where
  "route_from_claims_processing config state =
     (if workflow_status state = ''failed'' then ''notification''
      else if next_agent state = Some ''ComplianceAgent'' \<and> compliance_checks_required config
      then ''compliance''
      else ''notification'')"

definition route_from_compliance :: "WorkflowState \<Rightarrow> string" where
  "route_from_compliance state =
     (if workflow_status state = ''failed'' then ''notification'' else ''notification'')"

subsection \<open>The state graph\<close>

text \<open>
  The graph library (\<open>StateGraph\<close>) is not part of the repository. Its behaviour as this
  program uses it: a graph is a table of named nodes, conditional edges (a router and the
  table from the router's answers to node names) and plain edges; a run starts at the entry
  point, applies the node to the state, merges the returned state into the channels (the
  \<open>messages\<close> channel through its reducer \<open>add_messages\<close>, every other key by overwriting),
  and follows the edge of the node, until \<open>END\<close>. A run of more than 25 steps (the default
  recursion limit) raises. The run returns the names of the nodes it executed, in order,
  with the final state.
\<close>

definition add_messages :: "fstring list \<Rightarrow> fstring list \<Rightarrow> fstring list" where
  "add_messages left right = left @ right"

definition END :: string where
  "END = ''__end__''"

record Graph =
  nodes :: "(string \<times> (WorkflowState \<Rightarrow> error + WorkflowState)) list"
  conditional_edges :: "(string \<times> (WorkflowState \<Rightarrow> string) \<times> (string \<times> string) list) list"
  edges :: "(string \<times> string) list"
  entry_point :: string

definition merge_update :: "WorkflowState \<Rightarrow> WorkflowState \<Rightarrow> WorkflowState" where
  "merge_update old new = new\<lparr> ws_messages := add_messages (ws_messages old) (ws_messages new) \<rparr>"

definition next_node :: "Graph \<Rightarrow> string \<Rightarrow> WorkflowState \<Rightarrow> error + string" where
  "next_node g node state =
     (case map_of (conditional_edges g) node of
        Some (router, path_map) \<Rightarrow>
          (case map_of path_map (router state) of
             Some target \<Rightarrow> Inr target
           | None \<Rightarrow> Inl (GraphValueError (router state)))
      | None \<Rightarrow>
          (case map_of (edges g) node of
             Some target \<Rightarrow> Inr target
           | None \<Rightarrow> Inr END))"

fun run_from ::
    "Graph \<Rightarrow> nat \<Rightarrow> string \<Rightarrow> string list \<Rightarrow> WorkflowState \<Rightarrow> error + (string list \<times> WorkflowState)" where
  "run_from g 0 node visited state =
     (if node = END then Inr (visited, state) else Inl GraphRecursionError)"
| "run_from g (Suc fuel) node visited state =
     (if node = END then Inr (visited, state)
      else case map_of (nodes g) node of
             None \<Rightarrow> Inl (GraphValueError node)
           | Some f \<Rightarrow>
               (case f state of
                  Inl e \<Rightarrow> Inl e
                | Inr returned \<Rightarrow>
                    (let merged = merge_update state returned
                     in case next_node g node merged of
                          Inl e \<Rightarrow> Inl e
                        | Inr target \<Rightarrow> run_from g fuel target (visited @ [node]) merged)))"

definition ainvoke :: "Graph \<Rightarrow> WorkflowState \<Rightarrow> error + (string list \<times> WorkflowState)" where
  "ainvoke g initial_state = run_from g 25 (entry_point g) [] initial_state"

subsection \<open>The two workflows\<close>

datatype result_error_message = Message string | StrOfException error

datatype result_metadata = StateMetadata metadata_dict | ExceptionMetadata error

record WorkflowResult =
  wr_workflow_id :: string
  wr_status :: string
  wr_pay_record :: "PayRecord option"
  wr_claim :: "Claim option"
  wr_validation_report :: "ValidationReport option"
  wr_claim_decision :: "ClaimDecision option"
  wr_messages :: "fstring list"
  wr_started_at :: datetime
  wr_completed_at :: datetime
  duration_seconds :: rat
  wr_error_message :: "result_error_message option"
  wr_metadata :: result_metadata

definition calculate_duration :: "datetime \<Rightarrow> datetime \<Rightarrow> rat" where
  "calculate_duration start end_time = of_int (end_time - start) / 1000000"

definition pay_validation_initial_state :: "string \<Rightarrow> datetime \<Rightarrow> PayRecord \<Rightarrow> WorkflowState" where
  "pay_validation_initial_state wid started pay_record =
     \<lparr> ws_messages = [], ws_pay_record = Some pay_record, ws_claim = None,
       validation_report = None, claim_decision = None, current_agent = [],
       next_agent = Some ''PayValidationAgent'', workflow_status = ''in_progress'',
       error_message = None, workflow_id = wid, started_at = started, completed_at = None,
       iteration_count = 0,
       metadata = [(''workflow_id'', MStr wid), (''type'', MStr ''pay_validation'')] \<rparr>"

definition pay_validation_graph :: "Settings \<Rightarrow> WorkflowConfig \<Rightarrow> World \<Rightarrow> Graph" where
  "pay_validation_graph settings config w =
     \<lparr> nodes = [(''pay_validation'', run_pay_validation settings w),
                (''compliance'', run_compliance w),
                (''notification'', run_notification w)],
       conditional_edges =
         [(''pay_validation'',
             (route_from_pay_validation config,
              [(''compliance'', ''compliance''), (''notification'', ''notification''),
               (''end'', END)])),
          (''compliance'',
             (route_from_compliance,
              [(''notification'', ''notification''), (''end'', END)]))],
       edges = [(''notification'', END)],
       entry_point = ''pay_validation'' \<rparr>"

text \<open>
  \<open>CrewPayWorkflow.validate_pay_record\<close>: \<open>wid\<close> is the generated workflow identifier and
  \<open>started\<close> the clock reading at the start. Any exception of the run is caught and turned
  into a failed result.
\<close>

definition validate_pay_record ::
    "Settings \<Rightarrow> WorkflowConfig \<Rightarrow> World \<Rightarrow> string \<Rightarrow> datetime \<Rightarrow> PayRecord \<Rightarrow> WorkflowResult" where
  "validate_pay_record settings config w wid started pay_record =
     (case ainvoke (pay_validation_graph settings config w)
             (pay_validation_initial_state wid started pay_record) of
        Inr (visited, final_state) \<Rightarrow>
          (let completed = (case completed_at final_state of Some t \<Rightarrow> t | None \<Rightarrow> now_wrapper w)
           in \<lparr> wr_workflow_id = wid, wr_status = workflow_status final_state,
                wr_pay_record = Some pay_record, wr_claim = None,
                wr_validation_report = validation_report final_state,
                wr_claim_decision = None,
                wr_messages = ws_messages final_state,
                wr_started_at = started, wr_completed_at = completed,
                duration_seconds = calculate_duration started completed,
                wr_error_message = map_option Message (error_message final_state),
                wr_metadata = StateMetadata (metadata final_state) \<rparr>)
      | Inl e \<Rightarrow>
          \<lparr> wr_workflow_id = wid, wr_status = ''failed'',
            wr_pay_record = Some pay_record, wr_claim = None,
            wr_validation_report = None, wr_claim_decision = None,
            wr_messages = [],
            wr_started_at = started, wr_completed_at = now_wrapper w,
            duration_seconds = calculate_duration started (now_wrapper w),
            wr_error_message = Some (StrOfException e),
            wr_metadata = ExceptionMetadata e \<rparr>)"

definition claim_initial_state :: "string \<Rightarrow> datetime \<Rightarrow> Claim \<Rightarrow> WorkflowState" where
  "claim_initial_state wid started claim =
     \<lparr> ws_messages = [], ws_pay_record = None, ws_claim = Some claim,
       validation_report = None, claim_decision = None, current_agent = [],
       next_agent = Some ''ClaimsProcessingAgent'', workflow_status = ''in_progress'',
       error_message = None, workflow_id = wid, started_at = started, completed_at = None,
       iteration_count = 0,
       metadata = [(''workflow_id'', MStr wid), (''type'', MStr ''claim_processing'')] \<rparr>"

definition claim_graph :: "Settings \<Rightarrow> WorkflowConfig \<Rightarrow> World \<Rightarrow> Graph" where
  "claim_graph settings config w =
     \<lparr> nodes = [(''claims_processing'', run_claims_processing settings w),
                (''compliance'', run_compliance w),
                (''notification'', run_notification w)],
       conditional_edges =
         [(''claims_processing'',
             (route_from_claims_processing config,
              [(''compliance'', ''compliance''), (''notification'', ''notification''),
               (''end'', END)])),
          (''compliance'',
             (route_from_compliance,
              [(''notification'', ''notification''), (''end'', END)]))],
       edges = [(''notification'', END)],
       entry_point = ''claims_processing'' \<rparr>"

definition process_claim ::
    "Settings \<Rightarrow> WorkflowConfig \<Rightarrow> World \<Rightarrow> string \<Rightarrow> datetime \<Rightarrow> Claim \<Rightarrow> WorkflowResult" where
  "process_claim settings config w wid started claim =
     (case ainvoke (claim_graph settings config w) (claim_initial_state wid started claim) of
        Inr (visited, final_state) \<Rightarrow>
          (let completed = (case completed_at final_state of Some t \<Rightarrow> t | None \<Rightarrow> now_wrapper w)
           in \<lparr> wr_workflow_id = wid, wr_status = workflow_status final_state,
                wr_pay_record = None, wr_claim = Some claim,
                wr_validation_report = None,
                wr_claim_decision = claim_decision final_state,
                wr_messages = ws_messages final_state,
                wr_started_at = started, wr_completed_at = completed,
                duration_seconds = calculate_duration started completed,
                wr_error_message = map_option Message (error_message final_state),
                wr_metadata = StateMetadata (metadata final_state) \<rparr>)
      | Inl e \<Rightarrow>
          \<lparr> wr_workflow_id = wid, wr_status = ''failed'',
            wr_pay_record = None, wr_claim = Some claim,
            wr_validation_report = None, wr_claim_decision = None,
            wr_messages = [],
            wr_started_at = started, wr_completed_at = now_wrapper w,
            duration_seconds = calculate_duration started (now_wrapper w),
            wr_error_message = Some (StrOfException e),
            wr_metadata = ExceptionMetadata e \<rparr>)"

section \<open>Specification-side notions and sample inputs\<close>

text \<open>
  The ordering of the specification, failed > requires\_review > warning > passed, and the
  worst status of a list under it (\<open>PASSED\<close> for the empty list).
\<close>

fun severity :: "ValidationStatus \<Rightarrow> nat" where
  "severity PASSED = 0"
| "severity WARNING = 1"
| "severity REQUIRES_REVIEW = 2"
| "severity FAILED = 3"

definition worse :: "ValidationStatus \<Rightarrow> ValidationStatus \<Rightarrow> ValidationStatus" where
  "worse a b = (if severity a < severity b then b else a)"

definition worst_status :: "ValidationStatus list \<Rightarrow> ValidationStatus" where
  "worst_status ss = foldr worse ss PASSED"

text \<open>
  The crew member and pay record of the repository's examples: 80 regular hours, 5 overtime
  hours, hourly rate 75.50, period 2024-01-01 to 2024-01-15 (ordinals 738886 and 738900).
\<close>

definition sample_crew_member :: CrewMember where
  "sample_crew_member =
     \<lparr> cm_id = ''crew-001'', name = ''John Doe'', employee_id = ''EMP-12345'',
       department = ''Engineering'', position = ''Senior Engineer'',
       hourly_rate = 151 / 2, email = Some ''john.doe@example.com'', phone = None \<rparr>"

definition sample_pay_record :: "decimal \<Rightarrow> decimal \<Rightarrow> decimal \<Rightarrow> PayRecord" where
  "sample_pay_record gross ded net =
     \<lparr> pr_id = ''pay-2024-001'', pr_crew_member = sample_crew_member,
       pay_period_start = 738886, pay_period_end = 738900, pay_period_type = BI_WEEKLY,
       regular_hours = 80, overtime_hours = 5, gross_pay = gross, deductions = ded,
       net_pay = net, pr_status = PENDING \<rparr>"


text \<open>
  A consistent pay record (40 hours at 10.00, gross 400, deductions 80, net 320) whose hourly
  rate is below the minimum wage of the compliance agent.
\<close>

definition low_wage_crew_member :: CrewMember where
  "low_wage_crew_member =
     \<lparr> cm_id = ''crew-003'', name = ''Sam Low'', employee_id = ''EMP-00003'',
       department = ''Operations'', position = ''Deckhand'',
       hourly_rate = 10, email = None, phone = None \<rparr>"

definition low_wage_pay_record :: PayRecord where
  "low_wage_pay_record =
     \<lparr> pr_id = ''pay-2024-003'', pr_crew_member = low_wage_crew_member,
       pay_period_start = 738886, pay_period_end = 738900, pay_period_type = BI_WEEKLY,
       regular_hours = 40, overtime_hours = 0, gross_pay = 400, deductions = 80,
       net_pay = 320, pr_status = PENDING \<rparr>"

definition sample_claim :: "ClaimType \<Rightarrow> decimal \<Rightarrow> string list \<Rightarrow> Claim" where
  "sample_claim ty amt docs =
     \<lparr> cl_id = ''claim-2024-001'', cl_crew_member = sample_crew_member, claim_type = ty,
       amount = amt, description = ''Overtime work on emergency deployment'',
       supporting_documents = docs, submitted_date = 0, cl_status = SUBMITTED \<rparr>"

definition pay_record_input :: "PayRecord \<Rightarrow> AgentInput" where
  "pay_record_input p =
     \<lparr> ai_messages = [], ai_context = [], ai_pay_record = Some p, ai_claim = None \<rparr>"

definition claim_input :: "Claim \<Rightarrow> AgentInput" where
  "claim_input claim =
     \<lparr> ai_messages = [], ai_context = [], ai_pay_record = None, ai_claim = Some claim \<rparr>"

text \<open>A clock that starts at \<open>t\<close> and advances by one microsecond at each reading.\<close>

definition clock_at :: "datetime \<Rightarrow> nat \<Rightarrow> datetime" where
  "clock_at t n = t + int n"

definition sample_world :: "llm_outcome \<Rightarrow> llm_outcome \<Rightarrow> llm_outcome \<Rightarrow> World" where
  "sample_world pv cl co =
     \<lparr> llm_pay_validation = pv, llm_claims = cl, llm_compliance = co,
       clock_pay_validation = clock_at 100, clock_claims = clock_at 100,
       clock_notification = clock_at 300, now_notification_done = 400, now_wrapper = 500 \<rparr>"

text \<open>A world in which the advisory call of the compliance agent raises.\<close>

definition low_wage_world :: World where
  "low_wage_world =
     sample_world (LLMResponse ''passed'') (LLMResponse ''approved'') (LLMError ''timeout'')"

text \<open>The overall status the pay validation node computes in a run.\<close>

definition pay_validation_overall :: "Settings \<Rightarrow> World \<Rightarrow> PayRecord \<Rightarrow> ValidationStatus" where
  "pay_validation_overall settings w p =
     determine_overall_status
       (pay_validation_results settings (llm_pay_validation w) (clock_pay_validation w) p)"

text \<open>
  What a call of the claims agent decided: the decision, the approved amount and the number
  of advisory calls made.
\<close>

definition claim_outcome ::
    "error + (AgentOutput \<times> nat) \<Rightarrow> (ClaimStatus \<times> decimal \<times> nat) option" where
  "claim_outcome r =
     (case r of
        Inl e \<Rightarrow> None
      | Inr (out, calls) \<Rightarrow>
          (case result out of
             RejectedClaimResult d i st \<Rightarrow> Some (decision d, approved_amount d, calls)
           | ClaimResult d i st a \<Rightarrow> Some (decision d, approved_amount d, calls)
           | other \<Rightarrow> None))"

text \<open>A validation result without its timestamp.\<close>

definition verdict :: "ValidationResult \<Rightarrow> string \<times> ValidationStatus \<times> fstring \<times> details" where
  "verdict r = (check_name r, status r, message r, vr_details r)"

section \<open>Properties\<close>

subsection \<open>Status of a validation report\<close>

lemma determine_overall_status_Nil: "determine_overall_status [] = PASSED"
  by (simp add: determine_overall_status_def)

lemma determine_overall_status_Cons:
  "determine_overall_status (r # rs) = worse (status r) (determine_overall_status rs)"
  by (cases "status r") (simp_all add: determine_overall_status_def worse_def)

lemma determine_overall_status_worst:
  "determine_overall_status rs = worst_status (map status rs)"
  by (induction rs)
     (simp_all add: determine_overall_status_Nil determine_overall_status_Cons worst_status_def)

text \<open>\<open>worst_status\<close> is the maximum of the list under \<open>severity\<close>.\<close>

lemma worst_status_upper: "s \<in> set ss \<Longrightarrow> severity s \<le> severity (worst_status ss)"
  by (induction ss) (auto simp: worst_status_def worse_def)

lemma worst_status_member: "ss \<noteq> [] \<Longrightarrow> worst_status ss \<in> set ss"
proof (induction ss)
  case Nil
  then show ?case by simp
next
  case (Cons s ss)
  show ?case
  proof (cases "ss = []")
    case True
    then show ?thesis by (cases s) (simp_all add: worst_status_def worse_def)
  next
    case False
    with Cons.IH have "worst_status ss \<in> set ss" by simp
    then show ?thesis by (simp add: worst_status_def worse_def)
  qed
qed

text \<open>
  Claim C2. For every pay record (and every outcome of the advisory call), the pay
  validation agent returns a report whose results are the four rule checks followed by the
  advisory check, and whose overall status is the worst of these five statuses under
  failed > requires\_review > warning > passed.
\<close>

theorem C2_overall_status_is_worst:
  "\<exists>out rep i st.
     pay_validation_process settings outcome clock
       \<lparr> ai_messages = ms, ai_context = ctx, ai_pay_record = Some pay_record, ai_claim = c \<rparr>
       = Inr (out, 1)
     \<and> result out = PayValidationResult rep i st
     \<and> validation_results rep =
         [validate_hours settings (clock 0) pay_record,
          validate_pay_calculation (clock 1) pay_record,
          validate_pay_period (clock 2) pay_record,
          validate_data_completeness (clock 3) pay_record,
          validate_with_llm outcome (clock 4) pay_record]
     \<and> overall_status rep =
         worst_status
           [status (validate_hours settings (clock 0) pay_record),
            status (validate_pay_calculation (clock 1) pay_record),
            status (validate_pay_period (clock 2) pay_record),
            status (validate_data_completeness (clock 3) pay_record),
            status (validate_with_llm outcome (clock 4) pay_record)]"
  by (simp add: pay_validation_process_def Let_def determine_overall_status_worst
        pay_validation_results_def rule_based_results_def)

lemma validate_hours_status: "status (validate_hours s t p) \<in> {PASSED, WARNING, FAILED}"
  by (simp add: validate_hours_def Let_def)

lemma validate_pay_calculation_status: "status (validate_pay_calculation t p) \<in> {PASSED, FAILED}"
  by (simp add: validate_pay_calculation_def Let_def)

lemma validate_pay_period_status: "status (validate_pay_period t p) \<in> {PASSED, WARNING, FAILED}"
  by (simp add: validate_pay_period_def Let_def)

lemma validate_data_completeness_status:
  "status (validate_data_completeness t p) \<in> {PASSED, FAILED}"
  by (simp add: validate_data_completeness_def Let_def)

lemma validate_with_llm_status: "status (validate_with_llm out t p) \<in> {PASSED, WARNING, FAILED}"
  by (cases out) (simp_all add: validate_with_llm_def Let_def)

lemma determine_overall_status_review:
  "determine_overall_status rs = REQUIRES_REVIEW \<Longrightarrow> list_ex (\<lambda>r. status r = REQUIRES_REVIEW) rs"
  by (simp add: determine_overall_status_def split: if_splits)

lemma pay_validation_results_no_review:
  "\<not> list_ex (\<lambda>r. status r = REQUIRES_REVIEW) (pay_validation_results settings outcome clock p)"
  using validate_hours_status [of settings "clock 0" p]
        validate_pay_calculation_status [of "clock 1" p]
        validate_pay_period_status [of "clock 2" p]
        validate_data_completeness_status [of "clock 3" p]
        validate_with_llm_status [of outcome "clock 4" p]
  by (auto simp: pay_validation_results_def rule_based_results_def)

text \<open>
  Claim C10. For every pay record and every outcome of the advisory call, failure included,
  the overall status of the report is never requires\_review: it is passed, warning or
  failed. The advisory check itself never yields requires\_review, and its fallback on an
  exception yields warning.
\<close>

theorem C10_overall_status_never_requires_review:
  "\<exists>out rep i st.
     pay_validation_process settings outcome clock
       \<lparr> ai_messages = ms, ai_context = ctx, ai_pay_record = Some pay_record, ai_claim = c \<rparr>
       = Inr (out, 1)
     \<and> result out = PayValidationResult rep i st
     \<and> overall_status rep \<noteq> REQUIRES_REVIEW
     \<and> overall_status rep \<in> {PASSED, WARNING, FAILED}
     \<and> status (validate_with_llm outcome (clock 4) pay_record) \<noteq> REQUIRES_REVIEW
     \<and> status (validate_with_llm (LLMError e) (clock 4) pay_record) = WARNING"
proof -
  let ?rs = "pay_validation_results settings outcome clock pay_record"
  have a: "determine_overall_status ?rs \<noteq> REQUIRES_REVIEW"
    using determine_overall_status_review pay_validation_results_no_review by blast
  then have b: "determine_overall_status ?rs \<in> {PASSED, WARNING, FAILED}"
    by (cases "determine_overall_status ?rs") simp_all
  have c: "status (validate_with_llm outcome (clock 4) pay_record) \<noteq> REQUIRES_REVIEW"
    using validate_with_llm_status [of outcome "clock 4" pay_record] by auto
  have d: "status (validate_with_llm (LLMError e) (clock 4) pay_record) = WARNING"
    by (simp add: validate_with_llm_def)
  show ?thesis
    using a b c d by (simp add: pay_validation_process_def Let_def)
qed

subsection \<open>The pay-calculation check\<close>

text \<open>
  Claim C8. For 80 regular hours, 5 overtime hours and an hourly rate of 75.50, the expected
  gross pay is 80 * 75.50 + 5 * 75.50 * 1.5 = 6606.25; a record with gross pay 6606.25 and a
  net pay within 0.01 of gross minus deductions gets status passed; a record with gross pay
  6415.00 gets status failed, the difference 191.25 exceeding the tolerance 0.01.
\<close>

theorem C8_pay_calculation_example:
  "regular_hours p = 80 \<Longrightarrow> overtime_hours p = 5 \<Longrightarrow> hourly_rate (pr_crew_member p) = 151 / 2 \<Longrightarrow>
     expected_gross_pay p = 80 * (151 / 2) + 5 * (151 / 2) * (3 / 2)
   \<and> expected_gross_pay p = 26425 / 4
   \<and> (gross_pay p = 26425 / 4 \<and> \<bar>net_pay p - (gross_pay p - deductions p)\<bar> \<le> 1 / 100
        \<longrightarrow> status (validate_pay_calculation now p) = PASSED)
   \<and> (gross_pay p = 6415
        \<longrightarrow> status (validate_pay_calculation now p) = FAILED
            \<and> \<bar>gross_pay p - expected_gross_pay p\<bar> = 765 / 4
            \<and> \<bar>gross_pay p - expected_gross_pay p\<bar> > 1 / 100)"
  by (simp add: expected_gross_pay_def validate_pay_calculation_def Let_def)

theorem C8_pay_calculation_example_witness:
  "expected_gross_pay (sample_pay_record (26425 / 4) 1283 (21293 / 4)) = 26425 / 4
   \<and> status (validate_pay_calculation 0 (sample_pay_record (26425 / 4) 1283 (21293 / 4))) = PASSED
   \<and> status (validate_pay_calculation 0 (sample_pay_record 6415 1283 5132)) = FAILED"
  using C8_pay_calculation_example [of "sample_pay_record (26425 / 4) 1283 (21293 / 4)" 0]
        C8_pay_calculation_example [of "sample_pay_record 6415 1283 5132" 0]
  by (simp add: sample_pay_record_def sample_crew_member_def)

subsection \<open>Construction of a pay record\<close>

text \<open>
  Claim C4 (the code deviates). Construction is claimed to fail whenever the end of the pay
  period is not after its start. The field validator rejects an end before the start only:
  with equal dates it returns the value, for every date (2024-01-01, ordinal 738886, for
  one). An end before the start is rejected and an end after the start accepted, as claimed.
\<close>

theorem C4_equal_dates_accepted:
  "validate_pay_period_field (Some d) d = Inr d
   \<and> validate_pay_period_field (Some 738886) 738886 = Inr 738886
   \<and> validate_pay_period_field (Some s) v
       = (if v < s then Inl (ValueError ''Pay period end must be after start date'')
          else Inr v)"
  by (simp add: validate_pay_period_field_def)

subsection \<open>Failure of the advisory call\<close>

text \<open>
  Claim C3 (as stated, refuted). The claim has the pay validation agent turn an exception of
  its advisory call into \<open>REQUIRES_REVIEW\<close>. On the sample pay record, with an advisory call
  that raises, the advisory result is not \<open>REQUIRES_REVIEW\<close>.
\<close>

theorem C3_pay_validation_fallback_counterexample:
  "status (validate_with_llm (LLMError ''timeout'') 0 (sample_pay_record 6415 1283 5132))
   \<noteq> REQUIRES_REVIEW"
  by (simp add: validate_with_llm_def)

text \<open>
  Claim C3 (amended). For every agent whose advisory call raises, the exception is caught
  and converted into a neutral verdict with the error text preserved: for pay validation a
  result with status \<open>WARNING\<close> and message "LLM validation skipped due to error: e", for
  claims a decision \<open>UNDER_REVIEW\<close> with approved amount 0 and a rationale ending in the
  error text. Each agent still returns normally, having made at most one advisory call
  (exactly one in pay validation, and in claims processing when the claim passed the rule
  checks and was not auto-approved), and the claims agent then names the notification agent
  as the next one.
\<close>

theorem C3_advisory_failure_recovered:
  "status (validate_with_llm (LLMError e) now pay_record) = WARNING
   \<and> message (validate_with_llm (LLMError e) now pay_record)
       = [Lit ''LLM validation skipped due to error: '', Lit e]
   \<and> vr_details (validate_with_llm (LLMError e) now pay_record) = [(''error'', DStr e)]
   \<and> (\<exists>out. pay_validation_process settings (LLMError e) clock
               \<lparr> ai_messages = ms, ai_context = ctx, ai_pay_record = Some pay_record,
                 ai_claim = c \<rparr>
             = Inr (out, 1))
   \<and> decision (evaluate_claim_with_llm (LLMError e) now claim) = UNDER_REVIEW
   \<and> approved_amount (evaluate_claim_with_llm (LLMError e) now claim) = 0
   \<and> rationale (evaluate_claim_with_llm (LLMError e) now claim)
       = [Lit ''Automatic evaluation unavailable. Manual review required. Error: '', Lit e]
   \<and> (\<exists>out n. claims_process settings (LLMError e) clock
               \<lparr> ai_messages = ms, ai_context = ctx, ai_pay_record = p, ai_claim = Some claim \<rparr>
             = Inr (out, n) \<and> n \<le> 1 \<and> ao_next_agent out \<noteq> None
             \<and> (fst (validate_claim claim) \<and> \<not> auto_approvable settings claim \<longrightarrow>
                  n = 1
                  \<and> result out = ClaimResult (evaluate_claim_with_llm (LLMError e) (clock 0) claim)
                                   (cl_id claim) ''under_review'' 0
                  \<and> ao_next_agent out = Some ''NotificationAgent''))"
  by (simp add: validate_with_llm_def evaluate_claim_with_llm_def pay_validation_process_def
        claims_process_def determine_next_agent_def Let_def)

lemma validate_sample_claim:
  "validate_claim (sample_claim ty 5000 [''timesheet.xlsx'']) = (True, ''Claim validation passed'')"
  by (cases ty)
     (simp_all add: validate_claim_def sample_claim_def strip_def is_space_def
        validate_overtime_claim_def)

theorem C3_advisory_failure_recovered_witness:
  "fst (validate_claim (sample_claim OVERTIME 5000 [''timesheet.xlsx'']))
   \<and> \<not> auto_approvable default_settings (sample_claim OVERTIME 5000 [''timesheet.xlsx''])
   \<and> claim_outcome
        (claims_process default_settings (LLMError ''timeout'') (clock_at 0)
           (claim_input (sample_claim OVERTIME 5000 [''timesheet.xlsx''])))
      = Some (UNDER_REVIEW, 0, 1)"
proof -
  have a: "fst (validate_claim (sample_claim OVERTIME 5000 [''timesheet.xlsx'']))"
    by (simp add: validate_sample_claim)
  have b: "\<not> auto_approvable default_settings (sample_claim OVERTIME 5000 [''timesheet.xlsx''])"
    by (simp add: auto_approvable_def default_settings_def)
  obtain out n where
    "claims_process default_settings (LLMError ''timeout'') (clock_at 0)
       \<lparr> ai_messages = [], ai_context = [], ai_pay_record = None,
         ai_claim = Some (sample_claim OVERTIME 5000 [''timesheet.xlsx'']) \<rparr> = Inr (out, n)"
    and "n = 1"
    and "result out = ClaimResult
           (evaluate_claim_with_llm (LLMError ''timeout'') (clock_at 0 0)
              (sample_claim OVERTIME 5000 [''timesheet.xlsx'']))
           (cl_id (sample_claim OVERTIME 5000 [''timesheet.xlsx''])) ''under_review'' 0"
    using a b
      C3_advisory_failure_recovered [of "''timeout''" 0 "sample_pay_record 6415 1283 5132" default_settings
        "clock_at 0" "[]" "[]" None "sample_claim OVERTIME 5000 [''timesheet.xlsx'']" None]
    by blast
  then show ?thesis
    using a b by (simp add: claim_outcome_def claim_input_def evaluate_claim_with_llm_def)
qed

subsection \<open>Claims processing\<close>

lemma validate_claim_valid_amount: "fst (validate_claim c) \<Longrightarrow> 0 < amount c"
  by (simp add: validate_claim_def split: if_splits)

text \<open>
  Claim C6. For every claim that passes the rule checks and whose amount is at most the
  configured auto-approve threshold, the claims agent returns without any advisory call
  (zero calls, whatever the outcome of such a call would be) the decision of
  \<open>_auto_approve_claim\<close>: approved, with approved amount equal to the claim's amount.
\<close>

theorem C6_auto_approve_without_advisory:
  "fst (validate_claim claim) \<Longrightarrow> auto_approve_claim_threshold settings = Some t \<Longrightarrow>
   amount claim \<le> t \<Longrightarrow>
   \<exists>out d i st a.
     claims_process settings outcome clock
       \<lparr> ai_messages = ms, ai_context = ctx, ai_pay_record = p, ai_claim = Some claim \<rparr>
       = Inr (out, 0)
     \<and> result out = ClaimResult d i st a
     \<and> d = auto_approve_claim (clock 0) claim
     \<and> decision d = APPROVED \<and> approved_amount d = amount claim \<and> a = amount claim"
  using validate_claim_valid_amount [of claim]
  by (simp add: claims_process_def auto_approvable_def auto_approve_claim_def Let_def)

lemma validate_sample_claim_500:
  "validate_claim (sample_claim OVERTIME 500 [''timesheet.xlsx''])
   = (True, ''Claim validation passed'')"
  by (simp add: validate_claim_def sample_claim_def strip_def is_space_def
        validate_overtime_claim_def)

theorem C6_auto_approve_without_advisory_witness:
  "fst (validate_claim (sample_claim OVERTIME 500 [''timesheet.xlsx'']))
   \<and> auto_approve_claim_threshold (default_settings\<lparr> auto_approve_claim_threshold := Some 1000 \<rparr>)
       = Some 1000
   \<and> amount (sample_claim OVERTIME 500 [''timesheet.xlsx'']) \<le> 1000
   \<and> claim_outcome
        (claims_process (default_settings\<lparr> auto_approve_claim_threshold := Some 1000 \<rparr>)
           (LLMResponse ''rejected'') (clock_at 0)
           (claim_input (sample_claim OVERTIME 500 [''timesheet.xlsx''])))
      = Some (APPROVED, 500, 0)"
proof -
  have a: "fst (validate_claim (sample_claim OVERTIME 500 [''timesheet.xlsx'']))"
    by (simp add: validate_sample_claim_500)
  have b: "auto_approve_claim_threshold
             (default_settings\<lparr> auto_approve_claim_threshold := Some 1000 \<rparr>) = Some 1000"
    by simp
  have c: "amount (sample_claim OVERTIME 500 [''timesheet.xlsx'']) \<le> 1000"
    by (simp add: sample_claim_def)
  obtain out d i st am where
    "claims_process (default_settings\<lparr> auto_approve_claim_threshold := Some 1000 \<rparr>)
       (LLMResponse ''rejected'') (clock_at 0)
       \<lparr> ai_messages = [], ai_context = [], ai_pay_record = None,
         ai_claim = Some (sample_claim OVERTIME 500 [''timesheet.xlsx'']) \<rparr> = Inr (out, 0)"
    and "result out = ClaimResult d i st am"
    and "decision d = APPROVED"
    and "approved_amount d = amount (sample_claim OVERTIME 500 [''timesheet.xlsx''])"
    using C6_auto_approve_without_advisory [OF a b c, of "LLMResponse ''rejected''" "clock_at 0"
            "[]" "[]" None]
    by blast
  then show ?thesis
    using a b c by (simp add: claim_outcome_def claim_input_def) (simp add: sample_claim_def)
qed




subsection \<open>Determinism of the rule checks\<close>

text \<open>
  Claim C9 (as stated, refuted). The claim has two runs of the four rule checks on the same
  record yield identical results. Every \<open>ValidationResult\<close> carries the time of its
  construction (\<open>timestamp\<close>, by default \<open>datetime.now()\<close>): on the sample pay record, a run
  started at time 0 and a run started one second later give different results.
\<close>

theorem C9_rule_results_differ_counterexample:
  "rule_based_results default_settings (clock_at 0) (sample_pay_record 6415 1283 5132)
   \<noteq> rule_based_results default_settings (clock_at 1000000) (sample_pay_record 6415 1283 5132)"
  by (simp add: rule_based_results_def validate_hours_def Let_def clock_at_def)

lemma validate_hours_clock:
  "validate_hours s t p = (validate_hours s t' p)\<lparr>timestamp := t\<rparr>"
  by (simp add: validate_hours_def Let_def)

lemma validate_pay_calculation_clock:
  "validate_pay_calculation t p = (validate_pay_calculation t' p)\<lparr>timestamp := t\<rparr>"
  by (simp add: validate_pay_calculation_def Let_def)

lemma validate_pay_period_clock:
  "validate_pay_period t p = (validate_pay_period t' p)\<lparr>timestamp := t\<rparr>"
  by (simp add: validate_pay_period_def Let_def)

lemma validate_data_completeness_clock:
  "validate_data_completeness t p = (validate_data_completeness t' p)\<lparr>timestamp := t\<rparr>"
  by (simp add: validate_data_completeness_def Let_def)

lemma verdict_timestamp_update: "verdict (r\<lparr>timestamp := t\<rparr>) = verdict r"
  by (simp add: verdict_def)

lemma timestamp_update_same: "timestamp (r\<lparr>timestamp := t\<rparr>) = t"
  by simp

text \<open>
  Claim C9 (amended). For every pay record, two runs of the four rule checks yield results
  that are identical in check name, status, message and details; the timestamp of each
  result is the reading of the clock at its construction, so the results of the two runs are
  the same up to their timestamps.
\<close>

theorem C9_rule_results_equal_up_to_timestamp:
  "map verdict (rule_based_results settings clock1 p)
     = map verdict (rule_based_results settings clock2 p)
   \<and> map timestamp (rule_based_results settings clock1 p)
       = [clock1 0, clock1 1, clock1 2, clock1 3]
   \<and> rule_based_results settings clock1 p
       = map2 (\<lambda>r t. r\<lparr>timestamp := t\<rparr>) (rule_based_results settings clock2 p)
           [clock1 0, clock1 1, clock1 2, clock1 3]"
proof -
  have c: "rule_based_results settings clock1 p
       = map2 (\<lambda>r t. r\<lparr>timestamp := t\<rparr>) (rule_based_results settings clock2 p)
           [clock1 0, clock1 1, clock1 2, clock1 3]"
    unfolding rule_based_results_def
    using validate_hours_clock [of settings "clock1 0" p "clock2 0"]
          validate_pay_calculation_clock [of "clock1 1" p "clock2 1"]
          validate_pay_period_clock [of "clock1 2" p "clock2 2"]
          validate_data_completeness_clock [of "clock1 3" p "clock2 3"]
    by simp
  have a: "map verdict (rule_based_results settings clock1 p)
             = map verdict (rule_based_results settings clock2 p)"
    by (subst c) (simp add: rule_based_results_def verdict_timestamp_update)
  have b: "map timestamp (rule_based_results settings clock1 p)
             = [clock1 0, clock1 1, clock1 2, clock1 3]"
    by (subst c) (simp add: rule_based_results_def)
  show ?thesis using a b c by simp
qed

subsection \<open>Runs of the pay validation workflow\<close>

lemma run_pay_validation_initial:
  "\<exists>st1. run_pay_validation settings w (pay_validation_initial_state wid started p) = Inr st1
     \<and> workflow_status st1
         = (if pay_validation_overall settings w p = FAILED then ''failed'' else ''in_progress'')
     \<and> next_agent st1
         = (if pay_validation_overall settings w p = FAILED then None else Some ''ComplianceAgent'')
     \<and> ws_pay_record st1 = Some p \<and> ws_claim st1 = None
     \<and> (\<exists>r. map_of (metadata st1) ''validation_report'' = Some (MResult r))
     \<and> map_option overall_status (validation_report st1)
         = Some (pay_validation_overall settings w p)"
  by (simp add: run_pay_validation_def pay_validation_process_def pay_validation_initial_state_def
        pay_validation_overall_def Let_def)

lemma merge_update_fields:
  "workflow_status (merge_update old new) = workflow_status new"
  "next_agent (merge_update old new) = next_agent new"
  "ws_pay_record (merge_update old new) = ws_pay_record new"
  "ws_claim (merge_update old new) = ws_claim new"
  "metadata (merge_update old new) = metadata new"
  "validation_report (merge_update old new) = validation_report new"
  "claim_decision (merge_update old new) = claim_decision new"
  "error_message (merge_update old new) = error_message new"
  by (simp_all add: merge_update_def)

lemma send_pay_record_notifications_ok:
  "map_of ctx ''validation_report'' = Some (MResult r) \<Longrightarrow>
   \<exists>ns. send_pay_record_notifications clock start p ctx = Inr ns"
  by (simp add: send_pay_record_notifications_def Let_def)

lemma run_notification_pay_record:
  assumes m: "map_of (metadata st) ''validation_report'' = Some (MResult r)"
      and c: "ws_claim st = None"
  shows "\<exists>st'. run_notification w st = Inr st'
           \<and> workflow_status st'
               = (if workflow_status st = ''failed'' then ''failed'' else ''completed'')
           \<and> validation_report st' = validation_report st
           \<and> error_message st' = error_message st"
proof (cases "ws_pay_record st")
  case None
  then show ?thesis
    using c by (simp add: run_notification_def notification_process_def Let_def)
next
  case (Some p)
  obtain ns where "send_pay_record_notifications (clock_notification w) 0 p (metadata st) = Inr ns"
    using send_pay_record_notifications_ok [OF m] by blast
  then show ?thesis
    using c Some by (simp add: run_notification_def notification_process_def Let_def)
qed

lemma next_node_pay_validation:
  "next_node (pay_validation_graph settings config w) ''pay_validation'' st
   = Inr (route_from_pay_validation config st)"
  by (simp add: next_node_def pay_validation_graph_def route_from_pay_validation_def END_def)

lemma next_node_notification:
  "next_node (pay_validation_graph settings config w) ''notification'' st = Inr END"
  by (simp add: next_node_def pay_validation_graph_def)

lemma next_node_compliance:
  "next_node (pay_validation_graph settings config w) ''compliance'' st = Inr ''notification''"
  by (simp add: next_node_def pay_validation_graph_def route_from_compliance_def)

lemma nodes_pay_validation:
  "map_of (nodes (pay_validation_graph settings config w)) ''pay_validation''
     = Some (run_pay_validation settings w)"
  "map_of (nodes (pay_validation_graph settings config w)) ''compliance'' = Some (run_compliance w)"
  "map_of (nodes (pay_validation_graph settings config w)) ''notification''
     = Some (run_notification w)"
  by (simp_all add: pay_validation_graph_def)

lemma entry_point_pay_validation:
  "entry_point (pay_validation_graph settings config w) = ''pay_validation''"
  by (simp add: pay_validation_graph_def)

lemma run_from_END: "run_from g fuel END visited st = Inr (visited, st)"
  by (cases fuel) simp_all

lemma run_from_step:
  assumes "node \<noteq> END" and "map_of (nodes g) node = Some f" and "f st = Inr st'"
      and "next_node g node (merge_update st st') = Inr target"
  shows "run_from g (Suc n) node visited st
         = run_from g n target (visited @ [node]) (merge_update st st')"
  using assms by (simp add: Let_def)





subsection \<open>The compliance node\<close>

lemma map_of_dict_set_other: "k' \<noteq> k \<Longrightarrow> map_of (dict_set m k v) k' = map_of m k'"
  by (induction m k v rule: dict_set.induct) auto

lemma compliance_process_input:
  "compliance_process outcome
     \<lparr> ai_messages = ms, ai_context = ctx, ai_pay_record = p, ai_claim = c \<rparr>
   = compliance_process outcome
       \<lparr> ai_messages = [], ai_context = [], ai_pay_record = p, ai_claim = c \<rparr>"
  by (cases p) (simp_all add: compliance_process_def compliance_checks_of_def split: sum.splits)

lemma run_compliance_fields:
  assumes "compliance_process (llm_compliance w)
             \<lparr> ai_messages = [], ai_context = [], ai_pay_record = ws_pay_record st,
               ai_claim = ws_claim st \<rparr> = Inr (out, n)"
  shows "\<exists>st'. run_compliance w st = Inr st'
           \<and> workflow_status st' = (if should_continue out then workflow_status st else ''failed'')
           \<and> ws_pay_record st' = ws_pay_record st \<and> ws_claim st' = ws_claim st
           \<and> map_of (metadata st') ''validation_report'' = map_of (metadata st) ''validation_report''
           \<and> map_of (metadata st') ''claim_decision'' = map_of (metadata st) ''claim_decision''"
  using assms
    compliance_process_input [of "llm_compliance w" "ws_messages st" "metadata st"
      "ws_pay_record st" "ws_claim st"]
  by (simp add: run_compliance_def Let_def map_of_dict_set_other)

lemma low_wage_checks:
  "compliance_checks_of (LLMError ''timeout'') (pay_record_input low_wage_pay_record)
   = Inr [minimum_wage_check low_wage_pay_record,
          \<lparr> cc_check_name = ''tax_withholding_check'', passed = True, warning = False,
             cc_message = [Lit ''Deductions within normal range''],
             cc_details = [(''deduction_percentage'', DFloat 20)] \<rparr>,
          check_general_compliance (LLMError ''timeout'')]"
  by (simp add: compliance_checks_of_def pay_record_input_def check_pay_record_compliance_def
      tax_withholding_check_def decimal_div_def overtime_rate_check_def low_wage_pay_record_def
      Let_def)

lemma low_wage_minimum_wage_check:
  "passed (minimum_wage_check low_wage_pay_record) = False"
  "warning (minimum_wage_check low_wage_pay_record) = False"
  by (simp_all add: minimum_wage_check_def low_wage_pay_record_def low_wage_crew_member_def)

lemma low_wage_compliance_process:
  "\<exists>out checks.
     compliance_process (LLMError ''timeout'') (pay_record_input low_wage_pay_record) = Inr (out, 1)
     \<and> result out = ComplianceResult ''compliant_with_warnings'' checks False True
     \<and> minimum_wage_check low_wage_pay_record \<in> set checks
     \<and> should_continue out \<and> ao_next_agent out = Some ''NotificationAgent''"
  by (simp add: compliance_process_def low_wage_checks compliance_decide_def
        low_wage_minimum_wage_check check_general_compliance_def)

lemma low_wage_overall:
  "pay_validation_overall default_settings low_wage_world low_wage_pay_record = PASSED"
  by (simp add: pay_validation_overall_def pay_validation_results_def rule_based_results_def
        determine_overall_status_def low_wage_world_def sample_world_def
        validate_hours_def validate_pay_calculation_def expected_gross_pay_def
        validate_pay_period_def expected_days_def validate_data_completeness_def
        missing_fields_of_def validate_with_llm_def lower_def lower_char_def
        low_wage_pay_record_def low_wage_crew_member_def default_settings_def Let_def)

lemma low_wage_run:
  "\<exists>final.
     ainvoke (pay_validation_graph default_settings default_config low_wage_world)
       (pay_validation_initial_state ''workflow-3'' 0 low_wage_pay_record)
       = Inr ([''pay_validation'', ''compliance'', ''notification''], final)
     \<and> workflow_status final = ''completed''"
proof -
  let ?w = low_wage_world
  let ?p = low_wage_pay_record
  let ?g = "pay_validation_graph default_settings default_config ?w"
  let ?init = "pay_validation_initial_state ''workflow-3'' 0 ?p"
  obtain st1 r where st1: "run_pay_validation default_settings ?w ?init = Inr st1"
      and ws: "workflow_status st1 = ''in_progress''"
      and na: "next_agent st1 = Some ''ComplianceAgent''"
      and pr: "ws_pay_record st1 = Some ?p"
      and cl: "ws_claim st1 = None"
      and md: "map_of (metadata st1) ''validation_report'' = Some (MResult r)"
    using run_pay_validation_initial [of default_settings ?w "''workflow-3''" 0 ?p] low_wage_overall
    by auto
  let ?m1 = "merge_update ?init st1"
  have route: "next_node ?g ''pay_validation'' ?m1 = Inr ''compliance''"
    by (simp add: next_node_pay_validation route_from_pay_validation_def merge_update_fields ws na
          default_config_def)
  obtain out where out: "compliance_process (llm_compliance ?w)
             \<lparr> ai_messages = [], ai_context = [], ai_pay_record = ws_pay_record ?m1,
               ai_claim = ws_claim ?m1 \<rparr> = Inr (out, 1)" and sc: "should_continue out"
    using low_wage_compliance_process
    by (auto simp: merge_update_fields pr cl low_wage_world_def sample_world_def
          pay_record_input_def)
  obtain st2 where st2: "run_compliance ?w ?m1 = Inr st2"
      and ws2: "workflow_status st2 = ''in_progress''"
      and cl2: "ws_claim st2 = None"
      and md2: "map_of (metadata st2) ''validation_report'' = Some (MResult r)"
    using run_compliance_fields [OF out] sc by (auto simp: merge_update_fields ws cl md)
  let ?m2 = "merge_update ?m1 st2"
  obtain st3 where st3: "run_notification ?w ?m2 = Inr st3"
      and ws3: "workflow_status st3 = ''completed''"
    using run_notification_pay_record [of ?m2 r ?w] md2 cl2 ws2
    by (auto simp: merge_update_fields)
  let ?m3 = "merge_update ?m2 st3"
  have s1: "run_from ?g 25 ''pay_validation'' [] ?init
            = run_from ?g 24 ''compliance'' [''pay_validation''] ?m1"
    using run_from_step [of "''pay_validation''" ?g "run_pay_validation default_settings ?w"
            ?init st1 "''compliance''" 24 "[]"] st1 route
    by (simp add: END_def nodes_pay_validation)
  have s2: "run_from ?g 24 ''compliance'' [''pay_validation''] ?m1
            = run_from ?g 23 ''notification'' [''pay_validation'', ''compliance''] ?m2"
    using run_from_step [of "''compliance''" ?g "run_compliance ?w" ?m1 st2
            "''notification''" 23 "[''pay_validation'']"] st2
    by (simp add: END_def nodes_pay_validation next_node_compliance)
  have s3: "run_from ?g 23 ''notification'' [''pay_validation'', ''compliance''] ?m2
            = run_from ?g 22 END [''pay_validation'', ''compliance'', ''notification''] ?m3"
    using run_from_step [of "''notification''" ?g "run_notification ?w" ?m2 st3
            END 22 "[''pay_validation'', ''compliance'']"] st3
    by (simp add: END_def nodes_pay_validation next_node_notification [unfolded END_def])
  have "ainvoke ?g ?init = Inr ([''pay_validation'', ''compliance'', ''notification''], ?m3)"
    by (simp add: ainvoke_def entry_point_pay_validation s1 s2 s3 run_from_END)
  moreover have "workflow_status ?m3 = ''completed''"
    by (simp add: merge_update_fields ws3)
  ultimately show ?thesis by blast
qed

text \<open>
  Claim C5 (the code deviates). The claim has the compliance node mark the run failed
  whenever a hard (non-warning) check fails. On the low-wage pay record the minimum wage
  check fails and is not a warning; when the advisory call of the compliance agent raises,
  its fallback check carries the warning flag, the agent reports
  \<open>compliant_with_warnings\<close> and lets the run continue, and the whole run visits
  \<open>compliance\<close> and ends with status completed. The transition out of \<open>compliance\<close> is to
  \<open>notification\<close> on every state, as claimed.
\<close>

theorem C5_hard_failure_masked_by_warning:
  "\<not> passed (minimum_wage_check low_wage_pay_record)
   \<and> \<not> warning (minimum_wage_check low_wage_pay_record)
   \<and> (\<exists>out checks.
         compliance_process (LLMError ''timeout'') (pay_record_input low_wage_pay_record)
           = Inr (out, 1)
         \<and> result out = ComplianceResult ''compliant_with_warnings'' checks False True
         \<and> minimum_wage_check low_wage_pay_record \<in> set checks
         \<and> should_continue out \<and> ao_next_agent out = Some ''NotificationAgent'')
   \<and> (\<exists>final.
         ainvoke (pay_validation_graph default_settings default_config low_wage_world)
           (pay_validation_initial_state ''workflow-3'' 0 low_wage_pay_record)
           = Inr ([''pay_validation'', ''compliance'', ''notification''], final)
         \<and> workflow_status final = ''completed'')
   \<and> wr_status (validate_pay_record default_settings default_config low_wage_world
                   ''workflow-3'' 0 low_wage_pay_record) = ''completed''
   \<and> next_node (pay_validation_graph settings config w) ''compliance'' st = Inr ''notification''
   \<and> route_from_compliance st = ''notification''"
proof -
  obtain final where r: "ainvoke (pay_validation_graph default_settings default_config low_wage_world)
           (pay_validation_initial_state ''workflow-3'' 0 low_wage_pay_record)
           = Inr ([''pay_validation'', ''compliance'', ''notification''], final)"
      and s: "workflow_status final = ''completed''"
    using low_wage_run by blast
  have "wr_status (validate_pay_record default_settings default_config low_wage_world
                   ''workflow-3'' 0 low_wage_pay_record) = ''completed''"
    by (simp add: validate_pay_record_def r s Let_def)
  then show ?thesis
    using low_wage_run low_wage_compliance_process
    by (simp add: low_wage_minimum_wage_check next_node_compliance route_from_compliance_def)
qed

end
